theory Spec2Isabelle
  imports Complex_Main "HOL-Library.Sublist" "HOL-Library.Log_Nat"
    "HOL-Library.Char_ord" "HOL-Library.List_Lexorder" "HOL-Library.Product_Lexorder"
begin

section \<open>JavaScript numbers\<close>

text \<open>
  The tools compute percentages with JavaScript's \<open>Number\<close> type: IEEE 754 binary64,
  every arithmetic result rounded to the nearest representable value, ties to the even
  significand. A finite double is a rational, so the model works on \<open>rat\<close> and writes
  the rounding out. Only the normal range is modelled (no subnormals, no overflow): the
  values that occur are row counts, their quotients in \<open>[0, 1]\<close> and percentages in
  \<open>[0, 100]\<close>.
\<close>

definition pow2 :: "int \<Rightarrow> rat" where
  "pow2 e = (if 0 \<le> e then 2 ^ nat e else 1 / 2 ^ nat (- e))"

text \<open>
  The binary exponent of a positive rational, \<open>pow2 (ilog2 q) \<le> q < pow2 (ilog2 q + 1)\<close>,
  from the bit lengths of its numerator and denominator.
\<close>

definition ilog2 :: "rat \<Rightarrow> int" where
  "ilog2 q = (let (a, b) = quotient_of q;
                  e0 = bitlen a - bitlen b
              in if pow2 e0 \<le> q then e0 else e0 - 1)"

definition round_ties_even :: "rat \<Rightarrow> int" where
  "round_ties_even q = (let f = \<lfloor>q\<rfloor>; d = q - of_int f
     in if d < 1 / 2 then f else if 1 / 2 < d then f + 1
        else if even f then f else f + 1)"

text \<open>Rounding to 53 significant bits: the significand is scaled into \<open>[2^52, 2^53)\<close>.\<close>

definition binary64 :: "rat \<Rightarrow> rat" where
  "binary64 q = (if q = 0 then 0
     else let a = \<bar>q\<bar>; u = pow2 (ilog2 a - 52)
          in sgn q * (of_int (round_ties_even (a / u)) * u))"

definition js_div :: "rat \<Rightarrow> rat \<Rightarrow> rat" where
  "js_div x y = binary64 (x / y)"

definition js_mul :: "rat \<Rightarrow> rat \<Rightarrow> rat" where
  "js_mul x y = binary64 (x * y)"

text \<open>\<open>Math.round\<close>: the nearest integer, a tie going towards positive infinity.\<close>

definition Math_round :: "rat \<Rightarrow> int" where
  "Math_round x = \<lfloor>x + 1 / 2\<rfloor>"

text \<open>
  The expression \<open>n > 0 ? Math.round((correct / n) * 100) : 0\<close>, which \<open>getStudyStats\<close>
  writes three times (overall, per recent session, per topic).
\<close>

definition accuracy_of :: "nat \<Rightarrow> nat \<Rightarrow> int" where
  "accuracy_of correct n =
     (if n > 0 then Math_round (js_mul (js_div (of_nat correct) (of_nat n)) 100) else 0)"

text \<open>The percentage in exact arithmetic, rounded half up: what the formula reads as.\<close>

definition exact_percentage :: "nat \<Rightarrow> nat \<Rightarrow> int" where
  "exact_percentage correct n =
     (if n > 0 then \<lfloor>(100 * of_nat correct / of_nat n :: rat) + 1 / 2\<rfloor> else 0)"


section \<open>The persisted schema\<close>

text \<open>
  \<open>initializeDatabase\<close> creates two tables. Nullable columns are options;
  \<open>created_at\<close> (a \<open>CURRENT_TIMESTAMP\<close> text, compared as text) is a point in time.
\<close>

record study_session =
  s_id :: string
  s_topic :: string
  s_created_at :: nat

record quiz_result =
  r_id :: string
  r_session_id :: "string option"
  r_question :: string
  r_user_answer :: "string option"
  r_correct_answer :: string
  r_is_correct :: "int option"
  r_explanation :: "string option"
  r_created_at :: nat

datatype sql_table = Study_sessions | Quiz_results

datatype sql_error = Storage_failure | Primary_key_violation | Foreign_key_violation

text \<open>
  The agent's state: the rows of both tables in insertion order, the journal of the
  inserts the storage accepted, and what was written to \<open>console.error\<close>.
\<close>

record agent =
  study_sessions :: "study_session list"
  quiz_results :: "quiz_result list"
  sql_journal :: "sql_table list"
  console :: "(string \<times> sql_error) list"

text \<open>
  The text of a number in a template string, for a number that came in as a decimal
  literal of at most 17 digits after the point: the digits of the integer part and,
  when there is a fraction, the point and the digits of the fraction.
\<close>

fun nat_text :: "nat \<Rightarrow> string" where
  "nat_text n =
     (if n < 10 then [''0123456789'' ! n]
      else nat_text (n div 10) @ [''0123456789'' ! (n mod 10)])"

declare nat_text.simps [simp del]

fun fraction_text :: "nat \<Rightarrow> rat \<Rightarrow> string" where
  "fraction_text 0 f = []"
| "fraction_text (Suc k) f =
     (if f = 0 then []
      else (''0123456789'' ! nat \<lfloor>f * 10\<rfloor>) #
           fraction_text k (f * 10 - of_int \<lfloor>f * 10\<rfloor>))"

definition decimal_text :: "rat \<Rightarrow> string" where
  "decimal_text q =
     (let a = \<bar>q\<bar>; f = a - of_int \<lfloor>a\<rfloor>
      in (if q < 0 then ''-'' else []) @ nat_text (nat \<lfloor>a\<rfloor>) @
         (if f = 0 then [] else ''.'' @ fraction_text 17 f))"

text \<open>
  What a tool call takes from its surroundings: the value \<open>generateId()\<close> returns, the
  clock, whether the storage call throws for a reason of its own (storage unreachable,
  no current agent), and the runtime's conversion of a number to text in a template
  string. One flag serves a whole call: the three writing tools make one \<open>INSERT\<close>
  each, and in \<open>getStudyStats\<close> whichever statement throws ends the \<open>try\<close> block in
  the same way.
\<close>

record env =
  generateId :: string
  current_timestamp :: nat
  sql_throws :: bool
  number_to_string :: "rat \<Rightarrow> string"

text \<open>The state \<open>initializeDatabase\<close> leaves on a fresh storage: both tables empty.\<close>

definition initial_agent :: agent where
  "initial_agent = \<lparr>study_sessions = [], quiz_results = [], sql_journal = [], console = []\<rparr>"


section \<open>The SQL statements of the tools\<close>

text \<open>\<open>INSERT INTO study_sessions (id, topic) VALUES (?, ?)\<close>\<close>

definition sql_insert_study_session ::
  "env \<Rightarrow> agent \<Rightarrow> string \<Rightarrow> string \<Rightarrow> sql_error + agent" where
  "sql_insert_study_session e a sid tp =
     (if sql_throws e then Inl Storage_failure
      else if sid \<in> set (map s_id (study_sessions a)) then Inl Primary_key_violation
      else Inr (a\<lparr>study_sessions := study_sessions a @
                    [\<lparr>s_id = sid, s_topic = tp, s_created_at = current_timestamp e\<rparr>],
                  sql_journal := sql_journal a @ [Study_sessions]\<rparr>))"

text \<open>
  \<open>INSERT INTO quiz_results (id, session_id, question, user_answer, correct_answer,
  is_correct [, explanation]) VALUES (...)\<close>; without the last column the explanation
  is \<open>NULL\<close>. The table is created with \<open>FOREIGN KEY (session_id) REFERENCES
  study_sessions(id)\<close>, which the storage enforces: a result for a session that does not
  exist is rejected.
\<close>

definition sql_insert_quiz_result ::
  "env \<Rightarrow> agent \<Rightarrow> string \<Rightarrow> string \<Rightarrow> string \<Rightarrow> string \<Rightarrow> string \<Rightarrow> int \<Rightarrow> string option
     \<Rightarrow> sql_error + agent" where
  "sql_insert_quiz_result e a rid sid q ua ca ic ex =
     (if sql_throws e then Inl Storage_failure
      else if rid \<in> set (map r_id (quiz_results a)) then Inl Primary_key_violation
      else if sid \<notin> set (map s_id (study_sessions a)) then Inl Foreign_key_violation
      else Inr (a\<lparr>quiz_results := quiz_results a @
                    [\<lparr>r_id = rid, r_session_id = Some sid, r_question = q,
                      r_user_answer = Some ua, r_correct_answer = ca,
                      r_is_correct = Some ic, r_explanation = ex,
                      r_created_at = current_timestamp e\<rparr>],
                  sql_journal := sql_journal a @ [Quiz_results]\<rparr>))"

text \<open>A \<open>SELECT\<close> reads the tables, or throws.\<close>

definition sql_select :: "env \<Rightarrow> agent \<Rightarrow> (agent \<Rightarrow> 'r) \<Rightarrow> sql_error + 'r" where
  "sql_select e a q = (if sql_throws e then Inl Storage_failure else Inr (q a))"

definition is_correct_1 :: "quiz_result \<Rightarrow> bool" where
  "is_correct_1 r = (r_is_correct r = Some 1)"

text \<open>\<open>SELECT COUNT(*) as count FROM quiz_results\<close>\<close>

definition select_count_results :: "agent \<Rightarrow> nat" where
  "select_count_results a = length (quiz_results a)"

text \<open>\<open>SELECT COUNT(*) as count FROM quiz_results WHERE is_correct = 1\<close>\<close>

definition select_count_correct :: "agent \<Rightarrow> nat" where
  "select_count_correct a = length (filter is_correct_1 (quiz_results a))"

text \<open>
  \<open>SELECT DISTINCT topic, COUNT(*) as session_count FROM study_sessions GROUP BY topic
  ORDER BY session_count DESC\<close>. SQL leaves the order of equal counts open; the engine
  returns them in descending order of the topic.
\<close>

definition select_topics_studied :: "agent \<Rightarrow> (string \<times> nat) list" where
  "select_topics_studied a =
     rev (sort_key (\<lambda>(t, c). (c, t))
       (map (\<lambda>t. (t, length (filter (\<lambda>s. s_topic s = t) (study_sessions a))))
            (remdups (map s_topic (study_sessions a)))))"

text \<open>
  \<open>SELECT s.topic, s.created_at, COUNT(r.id), SUM(CASE WHEN r.is_correct = 1 THEN 1 ELSE 0
  END) FROM study_sessions s LEFT JOIN quiz_results r ON s.id = r.session_id GROUP BY s.id
  ORDER BY s.created_at DESC LIMIT 5\<close>. The primary key makes every session a group of
  its own; the engine returns equal timestamps in ascending order of the id.
\<close>

definition results_of_session :: "agent \<Rightarrow> study_session \<Rightarrow> quiz_result list" where
  "results_of_session a s = filter (\<lambda>r. r_session_id r = Some (s_id s)) (quiz_results a)"

definition select_recent_sessions :: "agent \<Rightarrow> (string \<times> nat \<times> nat \<times> nat) list" where
  "select_recent_sessions a =
     take 5
       (map (\<lambda>s. (s_topic s, s_created_at s, length (results_of_session a s),
                   length (filter is_correct_1 (results_of_session a s))))
            (sort_key (\<lambda>s. (- int (s_created_at s), s_id s)) (study_sessions a)))"

section \<open>The \<open>LIKE\<close> operator\<close>

text \<open>
  SQLite's \<open>LIKE\<close>: \<open>%\<close> in the pattern matches any run of characters, \<open>_\<close> any one
  character, and every other character itself, upper and lower case of the ASCII letters
  taken as equal.
\<close>

definition ascii_upper :: "char \<Rightarrow> char" where
  "ascii_upper c =
     (case map_of (zip ''abcdefghijklmnopqrstuvwxyz'' ''ABCDEFGHIJKLMNOPQRSTUVWXYZ'') c of
        None \<Rightarrow> c | Some u \<Rightarrow> u)"

fun like :: "string \<Rightarrow> string \<Rightarrow> bool" where
  "like [] s = (s = [])"
| "like (p # ps) s =
     (if p = CHR ''%'' then
        (like ps s \<or> (case s of [] \<Rightarrow> False | c # t \<Rightarrow> like (p # ps) t))
      else
        (case s of [] \<Rightarrow> False
         | c # t \<Rightarrow> (p = CHR ''_'' \<or> ascii_upper p = ascii_upper c) \<and> like ps t))"

declare like.simps [simp del]

text \<open>
  \<open>SELECT COUNT(*) as total, SUM(CASE WHEN is_correct = 1 THEN 1 ELSE 0 END) as correct
  FROM quiz_results r JOIN study_sessions s ON r.session_id = s.id WHERE s.topic LIKE ?\<close>:
  the inner join pairs every result with every session of its \<open>session_id\<close>; \<open>SUM\<close>
  over no rows is \<open>NULL\<close>.
\<close>

definition topic_join :: "string \<Rightarrow> agent \<Rightarrow> (quiz_result \<times> study_session) list" where
  "topic_join pat a =
     concat (map (\<lambda>r. map (\<lambda>s. (r, s))
                   (filter (\<lambda>s. r_session_id r = Some (s_id s) \<and> like pat (s_topic s))
                      (study_sessions a)))
                 (quiz_results a))"

definition select_topic_results :: "string \<Rightarrow> agent \<Rightarrow> nat \<times> nat option" where
  "select_topic_results pat a =
     (let rows = topic_join pat a
      in (length rows,
          if rows = [] then None
          else Some (length (filter (\<lambda>(r, s). is_correct_1 r) rows))))"


section \<open>The study tools\<close>

text \<open>What \<open>execute\<close> does: it returns a value, or an exception leaves it.\<close>

datatype 'a completion = Returns 'a | Throws sql_error

datatype difficulty = easy | medium | hard

definition difficulty_text :: "difficulty \<Rightarrow> string" where
  "difficulty_text d = (case d of easy \<Rightarrow> ''easy'' | medium \<Rightarrow> ''medium'' | hard \<Rightarrow> ''hard'')"

subsection \<open>generateQuiz\<close>

record quiz_input =
  qi_topic :: string
  qi_difficulty :: difficulty
  qi_numberOfQuestions :: rat

record quiz_output =
  qo_sessionId :: string
  qo_topic :: string
  qo_difficulty :: difficulty
  qo_numberOfQuestions :: rat
  qo_instruction :: string

definition quiz_instruction :: "env \<Rightarrow> quiz_input \<Rightarrow> string" where
  "quiz_instruction e i =
     ''Generate '' @ number_to_string e (qi_numberOfQuestions i) @ '' '' @
     difficulty_text (qi_difficulty i) @ '' quiz questions about '' @ [CHR 0x22] @
     qi_topic i @ [CHR 0x22] @ ''.'' @ [CHR 0x0A] @
     ''      Mix question types: multiple choice, true/false, and short answer.'' @ [CHR 0x0A] @
     ''      For multiple choice, always provide 4 options (A, B, C, D).'' @ [CHR 0x0A] @
     ''      Present questions ONE AT A TIME and wait for the student'' @ [CHR 0x27] @
     ''s answer before proceeding.'' @ [CHR 0x0A] @
     ''      After each answer, use the checkAnswer tool to evaluate and saveProgress to record the result.''"

definition generateQuiz :: "env \<Rightarrow> agent \<Rightarrow> quiz_input \<Rightarrow> quiz_output completion \<times> agent" where
  "generateQuiz e a i =
     (let sessionId = generateId e;
          a' = (case sql_insert_study_session e a sessionId (qi_topic i) of
                  Inr a1 \<Rightarrow> a1
                | Inl err \<Rightarrow> a\<lparr>console := console a @ [(''Error creating study session:'', err)]\<rparr>)
      in (Returns \<lparr>qo_sessionId = sessionId, qo_topic = qi_topic i,
                    qo_difficulty = qi_difficulty i,
                    qo_numberOfQuestions = qi_numberOfQuestions i,
                    qo_instruction = quiz_instruction e i\<rparr>, a'))"

subsection \<open>checkAnswer\<close>

record check_input =
  ci_sessionId :: string
  ci_question :: string
  ci_studentAnswer :: string
  ci_correctAnswer :: string
  ci_isCorrect :: bool

record check_output =
  co_resultId :: string
  co_isCorrect :: bool
  co_studentAnswer :: string
  co_correctAnswer :: string
  co_instruction :: string

definition check_instruction :: "bool \<Rightarrow> string" where
  "check_instruction isCorrect =
     (if isCorrect
      then ''The student got it right! Congratulate them and provide any additional interesting facts about this topic.''
      else ''The student got it wrong. Kindly explain why the correct answer is right and help them understand the concept better. Offer a memory trick if applicable.'')"

definition checkAnswer :: "env \<Rightarrow> agent \<Rightarrow> check_input \<Rightarrow> check_output completion \<times> agent" where
  "checkAnswer e a i =
     (let resultId = generateId e;
          isCorrectInt = (if ci_isCorrect i then 1 else 0);
          a' = (case sql_insert_quiz_result e a resultId (ci_sessionId i) (ci_question i)
                       (ci_studentAnswer i) (ci_correctAnswer i) isCorrectInt None of
                  Inr a1 \<Rightarrow> a1
                | Inl err \<Rightarrow> a\<lparr>console := console a @ [(''Error saving quiz result:'', err)]\<rparr>)
      in (Returns \<lparr>co_resultId = resultId, co_isCorrect = ci_isCorrect i,
                    co_studentAnswer = ci_studentAnswer i,
                    co_correctAnswer = ci_correctAnswer i,
                    co_instruction = check_instruction (ci_isCorrect i)\<rparr>, a'))"

subsection \<open>saveProgress\<close>

record save_input =
  si_sessionId :: string
  si_question :: string
  si_userAnswer :: string
  si_correctAnswer :: string
  si_isCorrect :: bool
  si_explanation :: "string option"

text \<open>The returned object; a key the object does not have is \<open>None\<close>.\<close>

record save_output =
  success :: bool
  so_resultId :: "string option"
  so_message :: "string option"
  so_error :: "string option"

text \<open>\<open>explanation || null\<close>: \<open>undefined\<close> and the empty string are falsy.\<close>

definition or_null :: "string option \<Rightarrow> string option" where
  "or_null v = (case v of None \<Rightarrow> None | Some s \<Rightarrow> if s = [] then None else Some s)"

definition saveProgress :: "env \<Rightarrow> agent \<Rightarrow> save_input \<Rightarrow> save_output completion \<times> agent" where
  "saveProgress e a i =
     (let resultId = generateId e;
          isCorrectInt = (if si_isCorrect i then 1 else 0);
          explanationValue = or_null (si_explanation i)
      in case sql_insert_quiz_result e a resultId (si_sessionId i) (si_question i)
                (si_userAnswer i) (si_correctAnswer i) isCorrectInt explanationValue of
           Inr a1 \<Rightarrow>
             (Returns \<lparr>success = True, so_resultId = Some resultId,
                       so_message = Some ''Progress saved successfully'', so_error = None\<rparr>, a1)
         | Inl err \<Rightarrow>
             (Returns \<lparr>success = False, so_resultId = None, so_message = None,
                       so_error = Some ''Failed to save progress''\<rparr>,
              a\<lparr>console := console a @ [(''Error saving progress:'', err)]\<rparr>))"

subsection \<open>getStudyStats\<close>

record overall_stats =
  totalQuestionsAnswered :: nat
  correctAnswers :: nat
  accuracy :: int

record topic_studied =
  tst_topic :: string
  sessionCount :: nat

record recent_session =
  rs_topic :: string
  rs_date :: nat
  questionsAnswered :: nat
  correctCount :: nat
  rs_accuracy :: int

record topic_stats =
  tp_topic :: string
  totalQuestions :: nat
  tp_correctAnswers :: nat
  tp_accuracy :: int

record study_stats =
  overall :: overall_stats
  topicsStudied :: "topic_studied list"
  recentSessions :: "recent_session list"
  topicStats :: "topic_stats option"
  st_instruction :: string

datatype stats_output = Stats study_stats | Stats_error string string

definition sql_bind :: "sql_error + 'a \<Rightarrow> ('a \<Rightarrow> sql_error + 'b) \<Rightarrow> sql_error + 'b" where
  "sql_bind m f = (case m of Inl err \<Rightarrow> Inl err | Inr v \<Rightarrow> f v)"

text \<open>\<open>if (topic)\<close>: an absent topic and the empty string are falsy.\<close>

definition truthy :: "string option \<Rightarrow> bool" where
  "truthy v = (case v of None \<Rightarrow> False | Some s \<Rightarrow> s \<noteq> [])"

text \<open>The block under \<open>if (topic)\<close>; \<open>correct || 0\<close> turns the \<open>NULL\<close> sum into 0.\<close>

definition topic_stats_of :: "env \<Rightarrow> agent \<Rightarrow> string \<Rightarrow> sql_error + topic_stats" where
  "topic_stats_of e a tp =
     (let topicPattern = ''%'' @ tp @ ''%''
      in sql_bind (sql_select e a (select_topic_results topicPattern))
           (\<lambda>(n, correct).
              let c = (case correct of None \<Rightarrow> 0 | Some k \<Rightarrow> k)
              in Inr \<lparr>tp_topic = tp, totalQuestions = n, tp_correctAnswers = c,
                      tp_accuracy = accuracy_of c n\<rparr>))"

text \<open>The body of the \<open>try\<close> block: the first statement that throws ends it.\<close>

definition stats_try :: "env \<Rightarrow> agent \<Rightarrow> string option \<Rightarrow> sql_error + study_stats" where
  "stats_try e a tp =
     sql_bind (sql_select e a select_count_results) (\<lambda>totalQuestions.
     sql_bind (sql_select e a select_count_correct) (\<lambda>correctAnswers_count.
     sql_bind (sql_select e a select_topics_studied) (\<lambda>topics.
     sql_bind (sql_select e a select_recent_sessions) (\<lambda>recent.
     sql_bind (if truthy tp then map_sum id Some (topic_stats_of e a (the tp)) else Inr None)
       (\<lambda>tstats.
          Inr \<lparr>overall = \<lparr>totalQuestionsAnswered = totalQuestions,
                           correctAnswers = correctAnswers_count,
                           accuracy = accuracy_of correctAnswers_count totalQuestions\<rparr>,
                topicsStudied = map (\<lambda>(t, c). \<lparr>tst_topic = t, sessionCount = c\<rparr>) topics,
                recentSessions =
                  map (\<lambda>(t, d, n, c). \<lparr>rs_topic = t, rs_date = d, questionsAnswered = n,
                                         correctCount = c, rs_accuracy = accuracy_of c n\<rparr>) recent,
                topicStats = tstats,
                st_instruction = ''Present these statistics in a friendly, encouraging way. Highlight improvements and suggest topics that might need more practice.''\<rparr>)))))"

definition getStudyStats :: "env \<Rightarrow> agent \<Rightarrow> string option \<Rightarrow> stats_output completion \<times> agent" where
  "getStudyStats e a tp =
     (case stats_try e a tp of
        Inr st \<Rightarrow> (Returns (Stats st), a)
      | Inl err \<Rightarrow>
          (Returns (Stats_error ''Unable to fetch study statistics''
                      (''Let the student know you couldn'' @ [CHR 0x27] @
                       ''t retrieve their stats, but encourage them to keep studying!'')),
           a\<lparr>console := console a @ [(''Error fetching study stats:'', err)]\<rparr>))"

subsection \<open>The tool set\<close>

datatype tool_call =
    GenerateQuiz quiz_input
  | CheckAnswer check_input
  | GetStudyStats "string option"
  | SaveProgress save_input

datatype tool_output =
    Quiz_output "quiz_output completion"
  | Check_output "check_output completion"
  | Stats_output "stats_output completion"
  | Save_output "save_output completion"

fun tools :: "env \<Rightarrow> agent \<Rightarrow> tool_call \<Rightarrow> tool_output \<times> agent" where
  "tools e a (GenerateQuiz i) = map_prod Quiz_output id (generateQuiz e a i)"
| "tools e a (CheckAnswer i) = map_prod Check_output id (checkAnswer e a i)"
| "tools e a (GetStudyStats tp) = map_prod Stats_output id (getStudyStats e a tp)"
| "tools e a (SaveProgress i) = map_prod Save_output id (saveProgress e a i)"

text \<open>A sequence of invocations, each with its own surroundings, run in order.\<close>

fun run_tools :: "agent \<Rightarrow> (env \<times> tool_call) list \<Rightarrow> agent" where
  "run_tools a [] = a"
| "run_tools a ((e, c) # cs) = run_tools (snd (tools e a c)) cs"


section \<open>The input schema of generateQuiz\<close>

text \<open>
  A tool call's input is a JSON value; a key the object does not have is \<open>undefined\<close>
  (\<open>None\<close>), and of a repeated key the last one counts.
\<close>

datatype json =
    JNull
  | JBool bool
  | JNumber rat
  | JString string
  | JArray "json list"
  | JObject "(string \<times> json) list"

definition property :: "(string \<times> json) list \<Rightarrow> string \<Rightarrow> json option" where
  "property obj k = map_of (rev obj) k"

datatype zod_issue = invalid_type | invalid_enum_value | too_small | too_big

text \<open>\<open>z.string()\<close>\<close>

definition z_string :: "json option \<Rightarrow> zod_issue + string" where
  "z_string v = (case v of Some (JString s) \<Rightarrow> Inr s | _ \<Rightarrow> Inl invalid_type)"

text \<open>\<open>z.enum(["easy", "medium", "hard"])\<close>\<close>

definition z_enum_difficulty :: "json option \<Rightarrow> zod_issue + difficulty" where
  "z_enum_difficulty v =
     (case v of
        Some (JString s) \<Rightarrow>
          if s = ''easy'' then Inr easy
          else if s = ''medium'' then Inr medium
          else if s = ''hard'' then Inr hard
          else Inl invalid_enum_value
      | _ \<Rightarrow> Inl invalid_type)"

text \<open>\<open>z.number().min(lo).max(hi)\<close>\<close>

definition z_number_min_max :: "rat \<Rightarrow> rat \<Rightarrow> json option \<Rightarrow> zod_issue + rat" where
  "z_number_min_max lo hi v =
     (case v of
        Some (JNumber n) \<Rightarrow>
          if n < lo then Inl too_small else if hi < n then Inl too_big else Inr n
      | _ \<Rightarrow> Inl invalid_type)"

text \<open>\<open>.default(d)\<close>: the default stands in for \<open>undefined\<close> only.\<close>

definition z_default :: "'a \<Rightarrow> (json option \<Rightarrow> zod_issue + 'a) \<Rightarrow> json option \<Rightarrow> zod_issue + 'a" where
  "z_default d p v = (case v of None \<Rightarrow> Inr d | Some x \<Rightarrow> p v)"

definition zod_bind :: "zod_issue + 'a \<Rightarrow> ('a \<Rightarrow> zod_issue + 'b) \<Rightarrow> zod_issue + 'b" where
  "zod_bind m f = (case m of Inl issue \<Rightarrow> Inl issue | Inr v \<Rightarrow> f v)"

text \<open>The \<open>inputSchema\<close> of \<open>generateQuiz\<close>; the first issue found rejects the input.\<close>

definition generateQuiz_inputSchema :: "json \<Rightarrow> zod_issue + quiz_input" where
  "generateQuiz_inputSchema input =
     (case input of
        JObject obj \<Rightarrow>
          zod_bind (z_string (property obj ''topic'')) (\<lambda>t.
          zod_bind (z_default medium z_enum_difficulty (property obj ''difficulty'')) (\<lambda>d.
          zod_bind (z_default 5 (z_number_min_max 1 10) (property obj ''numberOfQuestions'')) (\<lambda>n.
            Inr \<lparr>qi_topic = t, qi_difficulty = d, qi_numberOfQuestions = n\<rparr>)))
      | _ \<Rightarrow> Inl invalid_type)"

datatype 'a tool_result = Tool_error zod_issue | Tool_output 'a

text \<open>
  Modelled from the spec: the boundary at which a tool call is validated (the \<open>tool\<close>
  wrapper and the engine of the \<open>ai\<close> package, which are not among the sources). The
  input is parsed with the tool's \<open>inputSchema\<close>; an input the schema rejects is answered
  with a tool-level error and \<open>execute\<close> does not run.
\<close>

definition call_generateQuiz ::
  "env \<Rightarrow> agent \<Rightarrow> json \<Rightarrow> quiz_output completion tool_result \<times> agent" where
  "call_generateQuiz e a input =
     (case generateQuiz_inputSchema input of
        Inl issue \<Rightarrow> (Tool_error issue, a)
      | Inr i \<Rightarrow> map_prod Tool_output id (generateQuiz e a i))"

text \<open>\<open>Number.isInteger\<close>\<close>

definition is_integer :: "rat \<Rightarrow> bool" where
  "is_integer x = (of_int \<lfloor>x\<rfloor> = x)"

definition fractional_input :: json where
  "fractional_input =
     JObject [(''topic'', JString ''Photosynthesis''), (''numberOfQuestions'', JNumber (5 / 2))]"

definition valid_input :: json where
  "valid_input =
     JObject [(''topic'', JString ''Photosynthesis''), (''difficulty'', JString ''easy''),
              (''numberOfQuestions'', JNumber 3)]"

definition oversized_input :: json where
  "oversized_input =
     JObject [(''topic'', JString ''Photosynthesis''), (''numberOfQuestions'', JNumber 11)]"


section \<open>The conversation loop\<close>













section \<open>The message sanitizer\<close>

text \<open>
  Modelled from the spec: a message of the history (the message type of the \<open>ai\<close>
  package), with its role and its parts. A part is text, or a tool invocation with the
  result recorded for it, if any.
\<close>

datatype role = System | User | Assistant

datatype part = Text_part string | Tool_part string tool_call "tool_output option"

record message =
  msg_id :: string
  msg_role :: role
  msg_parts :: "part list"

text \<open>
  Modelled from the spec: a tool invocation that began and never completed, no result
  having been recorded for it, and a message that holds one.
\<close>

definition incomplete_part :: "part \<Rightarrow> bool" where
  "incomplete_part p = (case p of Tool_part call_id c None \<Rightarrow> True | _ \<Rightarrow> False)"

definition hasIncompleteToolCall :: "message \<Rightarrow> bool" where
  "hasIncompleteToolCall m = list_ex incomplete_part (msg_parts m)"

text \<open>
  Modelled from the spec: \<open>cleanupMessages\<close> of \<open>utils.ts\<close>, which is not among the
  sources. It strips the messages that hold a tool invocation without a result and
  keeps every other message as it is, in place.
\<close>

definition cleanupMessages :: "message list \<Rightarrow> message list" where
  "cleanupMessages messages = filter (\<lambda>m. \<not> hasIncompleteToolCall m) messages"

section \<open>Notions the properties are stated with\<close>

text \<open>
  When the storage accepts the \<open>INSERT\<close> of a call: it does not throw, the generated id
  is not yet a primary key of the table and, for a result, its session exists.
\<close>

definition session_insert_accepted :: "env \<Rightarrow> agent \<Rightarrow> bool" where
  "session_insert_accepted e a =
     (\<not> sql_throws e \<and> generateId e \<notin> set (map s_id (study_sessions a)))"

definition result_insert_accepted :: "env \<Rightarrow> agent \<Rightarrow> string \<Rightarrow> bool" where
  "result_insert_accepted e a sid =
     (\<not> sql_throws e \<and> generateId e \<notin> set (map r_id (quiz_results a)) \<and>
      sid \<in> set (map s_id (study_sessions a)))"

text \<open>Both tables and the journal of accepted inserts are what they were.\<close>

definition same_tables :: "agent \<Rightarrow> agent \<Rightarrow> bool" where
  "same_tables a a' =
     (study_sessions a' = study_sessions a \<and> quiz_results a' = quiz_results a \<and>
      sql_journal a' = sql_journal a)"

text \<open>The result of \<open>getStudyStats\<close> is its \<open>{error, instruction}\<close> object.\<close>

definition is_stats_error :: "stats_output completion \<Rightarrow> bool" where
  "is_stats_error out = (case out of Returns (Stats_error msg instr) \<Rightarrow> True | _ \<Rightarrow> False)"

text \<open>The row \<open>saveProgress\<close> binds to its \<open>INSERT\<close>.\<close>

definition saved_row :: "env \<Rightarrow> save_input \<Rightarrow> quiz_result" where
  "saved_row e i =
     \<lparr>r_id = generateId e, r_session_id = Some (si_sessionId i), r_question = si_question i,
      r_user_answer = Some (si_userAnswer i), r_correct_answer = si_correctAnswer i,
      r_is_correct = Some (if si_isCorrect i then 1 else 0),
      r_explanation = (case si_explanation i of None \<Rightarrow> None
                       | Some s \<Rightarrow> if s = [] then None else Some s),
      r_created_at = current_timestamp e\<rparr>"

text \<open>
  Append-only growth from \<open>a\<close> to \<open>a'\<close>: the old rows are a prefix of the new ones, and
  each table has grown by the number of inserts the journal has recorded since.
\<close>

definition grows :: "agent \<Rightarrow> agent \<Rightarrow> bool" where
  "grows a a' =
     (prefix (study_sessions a) (study_sessions a') \<and>
      prefix (quiz_results a) (quiz_results a') \<and>
      prefix (sql_journal a) (sql_journal a') \<and>
      length (study_sessions a') =
        length (study_sessions a) +
        count_list (drop (length (sql_journal a)) (sql_journal a')) Study_sessions \<and>
      length (quiz_results a') =
        length (quiz_results a) +
        count_list (drop (length (sql_journal a)) (sql_journal a')) Quiz_results)"

subsection \<open>Concrete surroundings and inputs\<close>

definition failing_env :: env where
  "failing_env = \<lparr>generateId = ''id-1'', current_timestamp = 0, sql_throws = True,
                   number_to_string = decimal_text\<rparr>"

definition working_env :: env where
  "working_env = \<lparr>generateId = ''id-1'', current_timestamp = 0, sql_throws = False,
                   number_to_string = decimal_text\<rparr>"

definition quiz_env :: env where
  "quiz_env = \<lparr>generateId = ''s-1'', current_timestamp = 0, sql_throws = False,
                 number_to_string = decimal_text\<rparr>"

definition photosynthesis_quiz :: quiz_input where
  "photosynthesis_quiz = \<lparr>qi_topic = ''Photosynthesis'', qi_difficulty = easy,
                           qi_numberOfQuestions = 3\<rparr>"

definition co2_answer :: check_input where
  "co2_answer = \<lparr>ci_sessionId = ''s-1'', ci_question = ''Which gas do plants absorb?'',
                  ci_studentAnswer = ''CO2'', ci_correctAnswer = ''CO2'', ci_isCorrect = True\<rparr>"

definition co2_progress :: save_input where
  "co2_progress = \<lparr>si_sessionId = ''s-1'', si_question = ''Which gas do plants absorb?'',
                    si_userAnswer = ''CO2'', si_correctAnswer = ''CO2'', si_isCorrect = True,
                    si_explanation = None\<rparr>"

definition co2_progress_blank :: save_input where
  "co2_progress_blank = co2_progress\<lparr>si_explanation := Some []\<rparr>"

definition photosynthesis_session :: study_session where
  "photosynthesis_session = \<lparr>s_id = ''s-1'', s_topic = ''Photosynthesis'', s_created_at = 0\<rparr>"

text \<open>The state after the quiz is generated: the session \<open>s-1\<close> exists.\<close>

definition quiz_state :: agent where
  "quiz_state = snd (generateQuiz quiz_env initial_agent photosynthesis_quiz)"

subsection \<open>Referential integrity\<close>

text \<open>A result whose \<open>session_id\<close> is the id of no session.\<close>

definition orphaned :: "agent \<Rightarrow> quiz_result \<Rightarrow> bool" where
  "orphaned a r = (r_session_id r \<notin> set (map (\<lambda>s. Some (s_id s)) (study_sessions a)))"

text \<open>
  What the primary key of \<open>study_sessions\<close> and the foreign key of \<open>quiz_results\<close>
  maintain: session ids are unique and no result is orphaned.
\<close>

definition referential :: "agent \<Rightarrow> bool" where
  "referential a =
     (distinct (map s_id (study_sessions a)) \<and>
      list_all (\<lambda>r. \<not> orphaned a r) (quiz_results a))"





subsection \<open>Topic filters\<close>












subsection \<open>Forty answers, twenty-three of them correct\<close>

text \<open>
  One quiz is generated and forty answers are checked, each call with an id of its own;
  the first twenty-three answers are correct.
\<close>

definition answer_env :: "nat \<Rightarrow> env" where
  "answer_env k = \<lparr>generateId = replicate (Suc k) CHR ''r'', current_timestamp = Suc k,
                    sql_throws = False, number_to_string = decimal_text\<rparr>"

definition answer_call :: "nat \<Rightarrow> tool_call" where
  "answer_call k =
     CheckAnswer \<lparr>ci_sessionId = ''s-1'', ci_question = ''Which gas do plants absorb?'',
                  ci_studentAnswer = (if k < 23 then ''CO2'' else ''O2''),
                  ci_correctAnswer = ''CO2'', ci_isCorrect = (k < 23)\<rparr>"

definition forty_answers :: "(env \<times> tool_call) list" where
  "forty_answers =
     (quiz_env, GenerateQuiz photosynthesis_quiz) #
     map (\<lambda>k. (answer_env k, answer_call k)) [0..<40]"

text \<open>The rows these calls insert.\<close>

definition answer_row :: "nat \<Rightarrow> quiz_result" where
  "answer_row k =
     \<lparr>r_id = replicate (Suc k) CHR ''r'', r_session_id = Some ''s-1'',
      r_question = ''Which gas do plants absorb?'',
      r_user_answer = Some (if k < 23 then ''CO2'' else ''O2''),
      r_correct_answer = ''CO2'', r_is_correct = Some (if k < 23 then 1 else 0),
      r_explanation = None, r_created_at = Suc k\<rparr>"


subsection \<open>A history cut off in the middle of a tool call\<close>

definition user_message :: message where
  "user_message = \<lparr>msg_id = ''m-1'', msg_role = User,
                    msg_parts = [Text_part ''Quiz me on photosynthesis'']\<rparr>"

definition saved_message :: message where
  "saved_message =
     \<lparr>msg_id = ''m-2'', msg_role = Assistant,
      msg_parts =
        [Tool_part ''call-1'' (SaveProgress co2_progress)
           (Some (Save_output (Returns
              \<lparr>success = True, so_resultId = Some ''id-1'',
               so_message = Some ''Progress saved successfully'', so_error = None\<rparr>))),
         Text_part ''Saved.'']\<rparr>"

definition interrupted_message :: message where
  "interrupted_message =
     \<lparr>msg_id = ''m-3'', msg_role = Assistant,
      msg_parts = [Tool_part ''call-2'' (GetStudyStats None) None]\<rparr>"

definition interrupted_history :: "message list" where
  "interrupted_history = [user_message, saved_message, interrupted_message]"


section \<open>The rounding of JavaScript numbers\<close>

text \<open>
  \<open>binary64\<close> rounds to the nearest double: the result is an integer multiple of the unit
  in the last place of the argument's binade, with a significand of 53 bits, at most
  half a unit away from the argument.
\<close>

lemma pow2_powi: "pow2 e = 2 powi e"
  by (simp add: pow2_def power_int_def field_simps)

lemma pow2_pos: "0 < pow2 e"
  by (simp add: pow2_powi)

lemma pow2_add: "pow2 (x + y) = pow2 x * pow2 y"
  by (simp add: pow2_powi power_int_add)

lemma pow2_diff: "pow2 (x - y) = pow2 x / pow2 y"
  by (simp add: pow2_powi power_int_diff)

lemma pow2_nat: "0 \<le> e \<Longrightarrow> pow2 e = 2 ^ nat e"
  by (simp add: pow2_def)

lemma ilog2_bounds:
  assumes "0 < q"
  shows "pow2 (ilog2 q) \<le> q \<and> q < pow2 (ilog2 q + 1)"
proof -
  obtain a b where ab: "quotient_of q = (a, b)"
    by (cases "quotient_of q")
  then have b: "0 < b" and q: "q = of_int a / of_int b"
    by (simp_all add: quotient_of_denom_pos quotient_of_div)
  with assms have a: "0 < a"
    by (simp add: zero_less_divide_iff)
  let ?e = "bitlen a - bitlen b"
  from bitlen_bounds [OF a] have a_lo: "(2::int) ^ nat (bitlen a - 1) \<le> a" and a_hi: "a < 2 ^ nat (bitlen a)"
    by simp_all
  from bitlen_bounds [OF b] have b_lo: "(2::int) ^ nat (bitlen b - 1) \<le> b" and b_hi: "b < 2 ^ nat (bitlen b)"
    by simp_all
  have la: "1 \<le> bitlen a" and lb: "1 \<le> bitlen b"
    using a b by (simp_all add: bitlen_alt_def)
  have "(of_int a :: rat) < of_int (2 ^ nat (bitlen a))"
    using a_hi by (simp only: of_int_less_iff)
  then have A_hi: "(of_int a :: rat) < pow2 (bitlen a)"
    using la by (simp add: pow2_nat)
  have "(of_int (2 ^ nat (bitlen a - 1)) :: rat) \<le> of_int a"
    using a_lo by (simp only: of_int_le_iff)
  then have A_lo: "pow2 (bitlen a - 1) \<le> (of_int a :: rat)"
    using la by (simp add: pow2_nat)
  have "(of_int b :: rat) < of_int (2 ^ nat (bitlen b))"
    using b_hi by (simp only: of_int_less_iff)
  then have B_hi: "(of_int b :: rat) < pow2 (bitlen b)"
    using lb by (simp add: pow2_nat)
  have "(of_int (2 ^ nat (bitlen b - 1)) :: rat) \<le> of_int b"
    using b_lo by (simp only: of_int_le_iff)
  then have B_lo: "pow2 (bitlen b - 1) \<le> (of_int b :: rat)"
    using lb by (simp add: pow2_nat)
  have A: "0 < (of_int a :: rat)" and B: "0 < (of_int b :: rat)"
    using a b by simp_all
  have "of_int a / of_int b < pow2 (bitlen a) / pow2 (bitlen b - 1)"
    using A A_hi B_lo pow2_pos [of "bitlen b - 1"] by (intro frac_less) simp_all
  then have upper: "q < pow2 (?e + 1)"
    by (simp add: q flip: pow2_diff) (simp add: algebra_simps)
  have "pow2 (bitlen a - 1) / pow2 (bitlen b) \<le> of_int a / of_int b"
    using A A_lo B B_hi by (intro frac_le) simp_all
  then have lower: "pow2 (?e - 1) \<le> q"
    by (simp add: q flip: pow2_diff) (simp add: algebra_simps)
  show ?thesis
    using upper lower ab by (auto simp: ilog2_def Let_def not_le)
qed

lemma round_ties_even_floor:
  "\<lfloor>x\<rfloor> \<le> round_ties_even x \<and> round_ties_even x \<le> \<lfloor>x\<rfloor> + 1"
  by (simp add: round_ties_even_def Let_def)

lemma round_ties_even_close: "\<bar>of_int (round_ties_even x) - x\<bar> \<le> 1 / 2"
proof -
  have "of_int \<lfloor>x\<rfloor> \<le> x" and "x < of_int \<lfloor>x\<rfloor> + 1"
    by linarith+
  then show ?thesis
    by (auto simp: round_ties_even_def Let_def abs_le_iff)
qed

lemma binary64_positive:
  "0 < q \<Longrightarrow>
   binary64 q = of_int (round_ties_even (q / pow2 (ilog2 q - 52))) * pow2 (ilog2 q - 52)"
  by (simp add: binary64_def Let_def)

lemma binary64_half_ulp:
  assumes "0 < q"
  shows "\<bar>binary64 q - q\<bar> \<le> pow2 (ilog2 q - 52) / 2"
proof -
  let ?u = "pow2 (ilog2 q - 52)"
  have u: "0 < ?u" by (rule pow2_pos)
  have "binary64 q - q = (of_int (round_ties_even (q / ?u)) - q / ?u) * ?u"
    using u by (simp add: binary64_positive [OF assms] algebra_simps)
  then have "\<bar>binary64 q - q\<bar> = \<bar>of_int (round_ties_even (q / ?u)) - q / ?u\<bar> * ?u"
    using u by (simp add: abs_mult)
  also have "\<dots> \<le> 1 / 2 * ?u"
    using u round_ties_even_close [of "q / ?u"] by (intro mult_right_mono) simp_all
  finally show ?thesis by simp
qed

lemma binary64_significand:
  assumes "0 < q"
  shows "2 ^ 52 \<le> round_ties_even (q / pow2 (ilog2 q - 52)) \<and>
         round_ties_even (q / pow2 (ilog2 q - 52)) \<le> 2 ^ 53"
proof -
  let ?u = "pow2 (ilog2 q - 52)"
  let ?m = "q / ?u"
  have u: "0 < ?u" by (rule pow2_pos)
  from ilog2_bounds [OF assms] have lo: "pow2 (ilog2 q) \<le> q" and hi: "q < pow2 (ilog2 q + 1)"
    by simp_all
  have "pow2 (ilog2 q) / ?u \<le> ?m"
    using lo u by (simp add: divide_right_mono)
  then have m_lo: "2 ^ 52 \<le> ?m"
    by (simp add: pow2_nat flip: pow2_diff)
  have "?m < pow2 (ilog2 q + 1) / ?u"
    using hi u by (simp add: divide_strict_right_mono)
  then have m_hi: "?m < 2 ^ 53"
    by (simp add: pow2_nat flip: pow2_diff)
  from m_lo have "(2::int) ^ 52 \<le> \<lfloor>?m\<rfloor>"
    by (simp add: le_floor_iff)
  moreover from m_hi have "\<lfloor>?m\<rfloor> < (2::int) ^ 53"
    by (simp add: floor_less_iff)
  ultimately show ?thesis
    using round_ties_even_floor [of ?m] by linarith
qed

lemma two_53: "(2::rat) ^ 53 = 9007199254740992"
  by simp

lemma binary64_relative:
  assumes "0 < q"
  shows "\<bar>binary64 q - q\<bar> \<le> q / 2 ^ 53"
proof -
  have "pow2 (ilog2 q - 52) = pow2 (ilog2 q) / 2 ^ 52"
    by (simp add: pow2_diff pow2_nat)
  also have "\<dots> \<le> q / 2 ^ 52"
    using ilog2_bounds [OF assms] by (simp add: divide_right_mono)
  finally have "pow2 (ilog2 q - 52) / 2 \<le> q / 2 ^ 53"
    by simp
  with binary64_half_ulp [OF assms] show ?thesis
    by linarith
qed

lemma binary64_pos:
  assumes "0 < q"
  shows "0 < binary64 q"
proof -
  from binary64_relative [OF assms] have "q - q / 2 ^ 53 \<le> binary64 q"
    by linarith
  moreover have "q / 2 ^ 53 < q"
    using assms by (simp add: field_simps)
  ultimately show ?thesis
    using assms by linarith
qed

lemma percentage_error:
  assumes "0 < q" and "q \<le> 1"
  shows "\<bar>binary64 (binary64 q * 100) - 100 * q\<bar> \<le> 300 / 2 ^ 53"
proof -
  let ?d = "binary64 q"
  let ?p = "?d * 100"
  have d: "\<bar>?d - q\<bar> \<le> q / 2 ^ 53"
    by (rule binary64_relative [OF assms(1)])
  have "q / 2 ^ 53 \<le> 1 / 2 ^ 53"
    using assms(2) by (simp add: divide_right_mono)
  with d have d1: "\<bar>?d - q\<bar> \<le> 1 / 2 ^ 53"
    by linarith
  have dpos: "0 < ?d"
    by (rule binary64_pos [OF assms(1)])
  then have ppos: "0 < ?p"
    by simp
  from d1 [unfolded two_53] assms(2) have "?d \<le> 2"
    by linarith
  then have p200: "?p \<le> 200"
    by simp
  have "\<bar>binary64 ?p - ?p\<bar> \<le> ?p / 2 ^ 53"
    by (rule binary64_relative [OF ppos])
  also have "\<dots> \<le> 200 / 2 ^ 53"
    using p200 by (simp add: divide_right_mono)
  finally have e1: "\<bar>binary64 ?p - ?p\<bar> \<le> 200 / 2 ^ 53" .
  from d1 [unfolded two_53] have e2: "\<bar>?p - 100 * q\<bar> \<le> 100 / 2 ^ 53"
    unfolding two_53 by linarith
  from e1 [unfolded two_53] e2 [unfolded two_53]
  have "\<bar>binary64 ?p - 100 * q\<bar> \<le> 300 / 2 ^ 53"
    unfolding two_53 by linarith
  then show ?thesis .
qed


section \<open>Properties of the tools' writes\<close>

subsection \<open>generateQuiz\<close>

lemma insert_session_Inl:
  "(\<exists>err. sql_insert_study_session e a (generateId e) tp = Inl err) = (\<not> session_insert_accepted e a)"
  by (auto simp: sql_insert_study_session_def session_insert_accepted_def)

text \<open>
  Claim C3. Whatever the input and whether or not the insert into \<open>study_sessions\<close> is
  accepted, \<open>generateQuiz\<close> returns (it does not throw) the payload
  \<open>{sessionId, topic, difficulty, numberOfQuestions, instruction}\<close> with the freshly
  generated id. When the insert fails, the error is caught and written to the console,
  and the tables stay as they were.
\<close>

theorem generateQuiz_returns_despite_insert_failure:
  "fst (generateQuiz e a i) =
     Returns \<lparr>qo_sessionId = generateId e, qo_topic = qi_topic i,
              qo_difficulty = qi_difficulty i,
              qo_numberOfQuestions = qi_numberOfQuestions i,
              qo_instruction = quiz_instruction e i\<rparr> \<and>
   (\<not> session_insert_accepted e a \<longrightarrow>
      same_tables a (snd (generateQuiz e a i)) \<and>
      (\<exists>err. console (snd (generateQuiz e a i)) =
                console a @ [(''Error creating study session:'', err)]))"
  by (auto simp: generateQuiz_def sql_insert_study_session_def session_insert_accepted_def
        same_tables_def Let_def)

theorem generateQuiz_returns_despite_insert_failure_witness:
  "\<not> session_insert_accepted failing_env initial_agent \<and>
   fst (generateQuiz failing_env initial_agent photosynthesis_quiz) =
     Returns \<lparr>qo_sessionId = ''id-1'', qo_topic = ''Photosynthesis'', qo_difficulty = easy,
              qo_numberOfQuestions = 3,
              qo_instruction = quiz_instruction failing_env photosynthesis_quiz\<rparr> \<and>
   study_sessions (snd (generateQuiz failing_env initial_agent photosynthesis_quiz)) = [] \<and>
   console (snd (generateQuiz failing_env initial_agent photosynthesis_quiz)) =
     [(''Error creating study session:'', Storage_failure)]"
proof -
  have h: "\<not> session_insert_accepted failing_env initial_agent"
    by (simp add: session_insert_accepted_def failing_env_def)
  from generateQuiz_returns_despite_insert_failure [of failing_env initial_agent photosynthesis_quiz] h
  have "same_tables initial_agent (snd (generateQuiz failing_env initial_agent photosynthesis_quiz))"
    and r: "fst (generateQuiz failing_env initial_agent photosynthesis_quiz) =
     Returns \<lparr>qo_sessionId = generateId failing_env, qo_topic = qi_topic photosynthesis_quiz,
              qo_difficulty = qi_difficulty photosynthesis_quiz,
              qo_numberOfQuestions = qi_numberOfQuestions photosynthesis_quiz,
              qo_instruction = quiz_instruction failing_env photosynthesis_quiz\<rparr>"
    by blast+
  then show ?thesis using h
    by (simp add: same_tables_def initial_agent_def failing_env_def photosynthesis_quiz_def
          generateQuiz_def sql_insert_study_session_def)
qed

subsection \<open>saveProgress\<close>

lemma quiz_state_eq:
  "quiz_state = \<lparr>study_sessions = [photosynthesis_session], quiz_results = [],
                  sql_journal = [Study_sessions], console = []\<rparr>"
  by (simp add: quiz_state_def generateQuiz_def sql_insert_study_session_def quiz_env_def
        initial_agent_def photosynthesis_quiz_def photosynthesis_session_def Let_def)

lemma saveProgress_accepted:
  "result_insert_accepted e a (si_sessionId i) \<Longrightarrow>
   saveProgress e a i =
     (Returns \<lparr>success = True, so_resultId = Some (generateId e),
               so_message = Some ''Progress saved successfully'', so_error = None\<rparr>,
      a\<lparr>quiz_results := quiz_results a @ [saved_row e i],
        sql_journal := sql_journal a @ [Quiz_results]\<rparr>)"
  by (simp add: saveProgress_def sql_insert_quiz_result_def result_insert_accepted_def
        saved_row_def or_null_def Let_def)

lemma saveProgress_rejected:
  "\<not> result_insert_accepted e a (si_sessionId i) \<Longrightarrow>
   fst (saveProgress e a i) =
     Returns \<lparr>success = False, so_resultId = None, so_message = None,
              so_error = Some ''Failed to save progress''\<rparr> \<and>
   same_tables a (snd (saveProgress e a i)) \<and>
   (\<exists>err. console (snd (saveProgress e a i)) = console a @ [(''Error saving progress:'', err)])"
  by (auto simp: saveProgress_def sql_insert_quiz_result_def result_insert_accepted_def
        same_tables_def Let_def)

lemma generateQuiz_output_independent:
  "generateId e' = generateId e \<Longrightarrow> number_to_string e' = number_to_string e \<Longrightarrow>
   fst (generateQuiz e' a' i) = fst (generateQuiz e a i)"
  by (simp add: generateQuiz_def Let_def quiz_instruction_def)

lemma checkAnswer_output_independent:
  "generateId e' = generateId e \<Longrightarrow> fst (checkAnswer e' a' i) = fst (checkAnswer e a i)"
  by (simp add: checkAnswer_def Let_def)

lemma getStudyStats_same_tables: "same_tables a (snd (getStudyStats e a tp))"
  by (simp add: getStudyStats_def same_tables_def split: sum.splits)

lemma getStudyStats_error_iff: "is_stats_error (fst (getStudyStats e a tp)) = sql_throws e"
  by (cases "truthy tp")
     (simp_all add: getStudyStats_def stats_try_def sql_bind_def sql_select_def
        topic_stats_of_def is_stats_error_def Let_def split_def)

text \<open>
  \<open>getStudyStats\<close> reports a failure of the storage in its result too: with a storage
  that throws it returns \<open>{error, instruction}\<close>, with one that does not, the
  statistics.
\<close>

theorem getStudyStats_reports_storage_failure:
  "sql_throws failing_env \<and>
   fst (getStudyStats failing_env initial_agent None) =
     Returns (Stats_error ''Unable to fetch study statistics''
       (''Let the student know you couldn'' @ [CHR 0x27] @
        ''t retrieve their stats, but encourage them to keep studying!'')) \<and>
   console (snd (getStudyStats failing_env initial_agent None)) =
     [(''Error fetching study stats:'', Storage_failure)] \<and>
   \<not> sql_throws working_env \<and>
   fst (getStudyStats working_env initial_agent None) =
     Returns (Stats
       \<lparr>overall = \<lparr>totalQuestionsAnswered = 0, correctAnswers = 0, accuracy = 0\<rparr>,
        topicsStudied = [], recentSessions = [], topicStats = None,
        st_instruction = ''Present these statistics in a friendly, encouraging way. Highlight improvements and suggest topics that might need more practice.''\<rparr>)"
  by (simp add: getStudyStats_def stats_try_def sql_bind_def sql_select_def failing_env_def
        working_env_def initial_agent_def truthy_def select_count_results_def
        select_count_correct_def select_topics_studied_def select_recent_sessions_def
        accuracy_of_def)

text \<open>
  Claim C5, amended. When the insert into \<open>quiz_results\<close> is accepted (the storage does
  not throw, the id is new, the session exists), \<open>saveProgress\<close> returns
  \<open>{success: true, resultId, message}\<close> and the row is in the table; when it is not, it
  returns \<open>{success: false, error}\<close> (it does not throw) and the tables are unchanged.
  An absent explanation is stored as \<open>NULL\<close>. Of the three tools that write it is the
  only one whose result reports a failed insert: what \<open>generateQuiz\<close> and \<open>checkAnswer\<close>
  return does not depend on the storage or on whether it throws. \<open>getStudyStats\<close>
  inserts nothing, and returns its \<open>{error, instruction}\<close> object exactly when the
  storage throws.
\<close>

theorem saveProgress_reports_insert_outcome:
  "(result_insert_accepted e a (si_sessionId i) \<longrightarrow>
      saveProgress e a i =
        (Returns \<lparr>success = True, so_resultId = Some (generateId e),
                  so_message = Some ''Progress saved successfully'', so_error = None\<rparr>,
         a\<lparr>quiz_results := quiz_results a @ [saved_row e i],
           sql_journal := sql_journal a @ [Quiz_results]\<rparr>)) \<and>
   (\<not> result_insert_accepted e a (si_sessionId i) \<longrightarrow>
      fst (saveProgress e a i) =
        Returns \<lparr>success = False, so_resultId = None, so_message = None,
                 so_error = Some ''Failed to save progress''\<rparr> \<and>
      same_tables a (snd (saveProgress e a i))) \<and>
   (si_explanation i = None \<longrightarrow> r_explanation (saved_row e i) = None) \<and>
   (\<forall>e' a' q. generateId e' = generateId e \<and> number_to_string e' = number_to_string e \<longrightarrow>
      fst (generateQuiz e' a' q) = fst (generateQuiz e a q)) \<and>
   (\<forall>e' a' c. generateId e' = generateId e \<longrightarrow>
      fst (checkAnswer e' a' c) = fst (checkAnswer e a c)) \<and>
   (\<forall>tp. same_tables a (snd (getStudyStats e a tp)) \<and>
         is_stats_error (fst (getStudyStats e a tp)) = sql_throws e)"
proof -
  have "si_explanation i = None \<longrightarrow> r_explanation (saved_row e i) = None"
    by (simp add: saved_row_def)
  then show ?thesis
    using saveProgress_accepted [of e a i] saveProgress_rejected [of e a i]
      generateQuiz_output_independent [of _ e] checkAnswer_output_independent [of _ e]
      getStudyStats_same_tables [of a e] getStudyStats_error_iff [of e a]
    by blast
qed

text \<open>
  The insert succeeds once the session exists; it fails when the storage throws, and
  when the session was never created.
\<close>

theorem saveProgress_reports_insert_outcome_witness:
  "result_insert_accepted working_env quiz_state (si_sessionId co2_progress) \<and>
   saveProgress working_env quiz_state co2_progress =
     (Returns \<lparr>success = True, so_resultId = Some ''id-1'',
               so_message = Some ''Progress saved successfully'', so_error = None\<rparr>,
      \<lparr>study_sessions = [photosynthesis_session],
       quiz_results = [saved_row working_env co2_progress],
       sql_journal = [Study_sessions, Quiz_results], console = []\<rparr>) \<and>
   si_explanation co2_progress = None \<and>
   r_explanation (saved_row working_env co2_progress) = None \<and>
   \<not> result_insert_accepted failing_env quiz_state (si_sessionId co2_progress) \<and>
   fst (saveProgress failing_env quiz_state co2_progress) =
     Returns \<lparr>success = False, so_resultId = None, so_message = None,
              so_error = Some ''Failed to save progress''\<rparr> \<and>
   quiz_results (snd (saveProgress failing_env quiz_state co2_progress)) = [] \<and>
   \<not> result_insert_accepted working_env initial_agent (si_sessionId co2_progress) \<and>
   fst (saveProgress working_env initial_agent co2_progress) =
     Returns \<lparr>success = False, so_resultId = None, so_message = None,
              so_error = Some ''Failed to save progress''\<rparr> \<and>
   quiz_results (snd (saveProgress working_env initial_agent co2_progress)) = [] \<and>
   fst (generateQuiz failing_env quiz_state photosynthesis_quiz) =
     fst (generateQuiz working_env quiz_state photosynthesis_quiz) \<and>
   fst (checkAnswer failing_env quiz_state co2_answer) =
     fst (checkAnswer working_env quiz_state co2_answer) \<and>
   is_stats_error (fst (getStudyStats failing_env quiz_state None)) \<and>
   \<not> is_stats_error (fst (getStudyStats working_env quiz_state None))"
proof -
  have sid: "si_sessionId co2_progress = ''s-1''"
    by (simp add: co2_progress_def)
  have ok: "result_insert_accepted working_env quiz_state (si_sessionId co2_progress)"
    by (simp add: result_insert_accepted_def working_env_def quiz_state_eq sid
          photosynthesis_session_def)
  have ko: "\<not> result_insert_accepted failing_env quiz_state (si_sessionId co2_progress)"
    by (simp add: result_insert_accepted_def failing_env_def)
  have fk: "\<not> result_insert_accepted working_env initial_agent (si_sessionId co2_progress)"
    by (simp add: result_insert_accepted_def initial_agent_def)
  have ids: "generateId failing_env = generateId working_env \<and>
             number_to_string failing_env = number_to_string working_env"
    by (simp add: failing_env_def working_env_def)
  have ex: "si_explanation co2_progress = None"
    by (simp add: co2_progress_def)
  note w = saveProgress_reports_insert_outcome [of working_env quiz_state co2_progress]
  note f = saveProgress_reports_insert_outcome [of failing_env quiz_state co2_progress]
  note n = saveProgress_reports_insert_outcome [of working_env initial_agent co2_progress]
  from w ok have "saveProgress working_env quiz_state co2_progress =
        (Returns \<lparr>success = True, so_resultId = Some (generateId working_env),
                  so_message = Some ''Progress saved successfully'', so_error = None\<rparr>,
         quiz_state\<lparr>quiz_results := quiz_results quiz_state @ [saved_row working_env co2_progress],
           sql_journal := sql_journal quiz_state @ [Quiz_results]\<rparr>)"
    by blast
  then have 1: "saveProgress working_env quiz_state co2_progress =
     (Returns \<lparr>success = True, so_resultId = Some ''id-1'',
               so_message = Some ''Progress saved successfully'', so_error = None\<rparr>,
      \<lparr>study_sessions = [photosynthesis_session],
       quiz_results = [saved_row working_env co2_progress],
       sql_journal = [Study_sessions, Quiz_results], console = []\<rparr>)"
    by (simp add: quiz_state_eq working_env_def)
  from w ex have 2: "r_explanation (saved_row working_env co2_progress) = None"
    by blast
  from f ko have 3: "fst (saveProgress failing_env quiz_state co2_progress) =
        Returns \<lparr>success = False, so_resultId = None, so_message = None,
                 so_error = Some ''Failed to save progress''\<rparr>"
    and "same_tables quiz_state (snd (saveProgress failing_env quiz_state co2_progress))"
    by blast+
  then have 4: "quiz_results (snd (saveProgress failing_env quiz_state co2_progress)) = []"
    by (simp add: same_tables_def quiz_state_eq)
  from n fk have 5: "fst (saveProgress working_env initial_agent co2_progress) =
        Returns \<lparr>success = False, so_resultId = None, so_message = None,
                 so_error = Some ''Failed to save progress''\<rparr>"
    and "same_tables initial_agent (snd (saveProgress working_env initial_agent co2_progress))"
    by blast+
  then have 6: "quiz_results (snd (saveProgress working_env initial_agent co2_progress)) = []"
    by (simp add: same_tables_def initial_agent_def)
  from w ids have 7: "fst (generateQuiz failing_env quiz_state photosynthesis_quiz) =
      fst (generateQuiz working_env quiz_state photosynthesis_quiz)"
    and 8: "fst (checkAnswer failing_env quiz_state co2_answer) =
      fst (checkAnswer working_env quiz_state co2_answer)"
    by blast+
  from f have 9: "is_stats_error (fst (getStudyStats failing_env quiz_state None))"
    by (simp add: failing_env_def)
  from w have 10: "\<not> is_stats_error (fst (getStudyStats working_env quiz_state None))"
    by (simp add: working_env_def)
  from ok ko fk ex 1 2 3 4 5 6 7 8 9 10 show ?thesis
    by blast
qed

text \<open>
  Claim C9. An explanation given as the empty string is stored as \<open>NULL\<close>: the call does
  exactly what the call without an explanation does, and when the insert is accepted
  the row it stores has no explanation.
\<close>

theorem saveProgress_empty_explanation_is_null:
  "si_explanation i = Some [] \<Longrightarrow>
   saveProgress e a i = saveProgress e a (i\<lparr>si_explanation := None\<rparr>) \<and>
   r_explanation (saved_row e i) = None \<and>
   (result_insert_accepted e a (si_sessionId i) \<longrightarrow>
      quiz_results (snd (saveProgress e a i)) = quiz_results a @ [saved_row e i])"
  by (simp add: saveProgress_def saved_row_def or_null_def Let_def
        sql_insert_quiz_result_def result_insert_accepted_def)

theorem saveProgress_empty_explanation_is_null_witness:
  "si_explanation co2_progress_blank = Some [] \<and>
   result_insert_accepted working_env quiz_state (si_sessionId co2_progress_blank) \<and>
   saveProgress working_env quiz_state co2_progress_blank =
     saveProgress working_env quiz_state co2_progress \<and>
   map r_explanation
     (quiz_results (snd (saveProgress working_env quiz_state co2_progress_blank))) = [None]"
proof -
  have h: "si_explanation co2_progress_blank = Some []"
    by (simp add: co2_progress_blank_def)
  have ok: "result_insert_accepted working_env quiz_state (si_sessionId co2_progress_blank)"
    by (simp add: result_insert_accepted_def working_env_def quiz_state_eq
          co2_progress_blank_def co2_progress_def photosynthesis_session_def)
  have same: "co2_progress_blank\<lparr>si_explanation := None\<rparr> = co2_progress"
    by (simp add: co2_progress_blank_def co2_progress_def)
  note t = saveProgress_empty_explanation_is_null [OF h, of working_env quiz_state]
  from t same have 1: "saveProgress working_env quiz_state co2_progress_blank =
      saveProgress working_env quiz_state co2_progress"
    by simp
  from t ok have 2: "quiz_results (snd (saveProgress working_env quiz_state co2_progress_blank))
      = quiz_results quiz_state @ [saved_row working_env co2_progress_blank]"
    by blast
  from t have 3: "r_explanation (saved_row working_env co2_progress_blank) = None"
    by blast
  from 2 3 have "map r_explanation
     (quiz_results (snd (saveProgress working_env quiz_state co2_progress_blank))) = [None]"
    by (simp add: quiz_state_eq)
  with h ok 1 show ?thesis
    by blast
qed

subsection \<open>Append-only tables\<close>

lemma grows_refl: "grows a a"
  by (simp add: grows_def)

lemma grows_trans: "grows a b \<Longrightarrow> grows b c \<Longrightarrow> grows a c"
  unfolding grows_def prefix_def
  by auto

lemma grows_console: "grows a (a\<lparr>console := l\<rparr>)"
  by (simp add: grows_def)

lemma grows_generateQuiz: "grows a (snd (generateQuiz e a i))"
  by (simp add: generateQuiz_def sql_insert_study_session_def grows_def Let_def)

lemma grows_checkAnswer: "grows a (snd (checkAnswer e a i))"
  by (simp add: checkAnswer_def sql_insert_quiz_result_def grows_def Let_def)

lemma grows_saveProgress: "grows a (snd (saveProgress e a i))"
  by (simp add: saveProgress_def sql_insert_quiz_result_def grows_def Let_def)

lemma grows_getStudyStats: "grows a (snd (getStudyStats e a tp))"
  by (simp add: getStudyStats_def grows_def split: sum.splits)

lemma grows_tools: "grows a (snd (tools e a c))"
  by (cases c)
     (simp_all add: grows_generateQuiz grows_checkAnswer grows_saveProgress grows_getStudyStats)

lemma grows_run_tools: "grows a (run_tools a cs)"
proof (induction cs arbitrary: a)
  case Nil
  show ?case by (simp add: grows_refl)
next
  case (Cons ec cs)
  obtain e c where ec: "ec = (e, c)" by (cases ec)
  have "grows a (snd (tools e a c))" by (rule grows_tools)
  moreover have "grows (snd (tools e a c)) (run_tools (snd (tools e a c)) cs)"
    by (rule Cons.IH)
  ultimately show ?case
    unfolding ec by (simp add: grows_trans)
qed

text \<open>
  Claim C2. After any sequence of invocations of the four tools, started in any state,
  the rows that were in each table are still there, unchanged and in place (a prefix of
  the table), and each table has grown by exactly the number of inserts into it that the
  storage accepted during the sequence. Started with empty tables, the row count of each
  table is the number of accepted inserts.
\<close>

theorem tables_append_only:
  "prefix (study_sessions a) (study_sessions (run_tools a cs)) \<and>
   prefix (quiz_results a) (quiz_results (run_tools a cs)) \<and>
   prefix (sql_journal a) (sql_journal (run_tools a cs)) \<and>
   length (study_sessions (run_tools a cs)) =
     length (study_sessions a) +
     count_list (drop (length (sql_journal a)) (sql_journal (run_tools a cs))) Study_sessions \<and>
   length (quiz_results (run_tools a cs)) =
     length (quiz_results a) +
     count_list (drop (length (sql_journal a)) (sql_journal (run_tools a cs))) Quiz_results \<and>
   length (study_sessions (run_tools initial_agent cs)) =
     count_list (sql_journal (run_tools initial_agent cs)) Study_sessions \<and>
   length (quiz_results (run_tools initial_agent cs)) =
     count_list (sql_journal (run_tools initial_agent cs)) Quiz_results"
  using grows_run_tools [of a cs] grows_run_tools [of initial_agent cs]
  by (simp add: grows_def initial_agent_def)


section \<open>Properties of getStudyStats\<close>

text \<open>When no statement throws, the statistics are these counts over the tables.\<close>

lemma stats_try_ok:
  "\<not> sql_throws e \<Longrightarrow>
   \<exists>st. stats_try e a tp = Inr st \<and>
     totalQuestionsAnswered (overall st) = length (quiz_results a) \<and>
     correctAnswers (overall st) = length (filter is_correct_1 (quiz_results a)) \<and>
     accuracy (overall st) =
       accuracy_of (length (filter is_correct_1 (quiz_results a))) (length (quiz_results a)) \<and>
     topicStats st =
       (if truthy tp
        then Some \<lparr>tp_topic = the tp,
                   totalQuestions = length (topic_join (''%'' @ the tp @ ''%'') a),
                   tp_correctAnswers =
                     length (filter (\<lambda>(r, s). is_correct_1 r) (topic_join (''%'' @ the tp @ ''%'') a)),
                   tp_accuracy =
                     accuracy_of
                       (length (filter (\<lambda>(r, s). is_correct_1 r) (topic_join (''%'' @ the tp @ ''%'') a)))
                       (length (topic_join (''%'' @ the tp @ ''%'') a))\<rparr>
        else None)"
  by (simp add: stats_try_def sql_bind_def sql_select_def topic_stats_of_def
        select_topic_results_def select_count_results_def select_count_correct_def Let_def)

lemma getStudyStats_ok:
  "\<not> sql_throws e \<Longrightarrow>
   \<exists>st. getStudyStats e a tp = (Returns (Stats st), a) \<and>
     totalQuestionsAnswered (overall st) = length (quiz_results a) \<and>
     correctAnswers (overall st) = length (filter is_correct_1 (quiz_results a)) \<and>
     accuracy (overall st) =
       accuracy_of (length (filter is_correct_1 (quiz_results a))) (length (quiz_results a)) \<and>
     topicStats st =
       (if truthy tp
        then Some \<lparr>tp_topic = the tp,
                   totalQuestions = length (topic_join (''%'' @ the tp @ ''%'') a),
                   tp_correctAnswers =
                     length (filter (\<lambda>(r, s). is_correct_1 r) (topic_join (''%'' @ the tp @ ''%'') a)),
                   tp_accuracy =
                     accuracy_of
                       (length (filter (\<lambda>(r, s). is_correct_1 r) (topic_join (''%'' @ the tp @ ''%'') a)))
                       (length (topic_join (''%'' @ the tp @ ''%'') a))\<rparr>
        else None)"
  using stats_try_ok [of e a tp] by (auto simp: getStudyStats_def)

subsection \<open>The topic join, session by session\<close>

lemma filter_length_as_sum:
  "length (filter (\<lambda>s. R s \<and> L s) S) =
   sum_list (map (\<lambda>s. if R s then 1 else 0) (filter L S))"
  by (induction S) auto

lemma join_length_by_session:
  "length (concat (map (\<lambda>r. map (\<lambda>s. (r, s)) (filter (\<lambda>s. R r s \<and> L s) S)) Rs)) =
   sum_list (map (\<lambda>s. length (filter (\<lambda>r. R r s) Rs)) (filter L S))"
proof (induction Rs)
  case Nil
  show ?case by simp
next
  case (Cons r Rs)
  have "sum_list (map (\<lambda>s. length (filter (\<lambda>r. R r s) (r # Rs))) (filter L S)) =
        sum_list (map (\<lambda>s. (if R r s then 1 else 0) + length (filter (\<lambda>r. R r s) Rs)) (filter L S))"
    by (intro arg_cong [where f = sum_list] map_cong) auto
  also have "\<dots> = sum_list (map (\<lambda>s. if R r s then 1 else 0) (filter L S)) +
                   sum_list (map (\<lambda>s. length (filter (\<lambda>r. R r s) Rs)) (filter L S))"
    by (simp add: sum_list_addf)
  finally show ?case
    using Cons by (simp add: filter_length_as_sum [of "R r" L S])
qed


lemma topic_join_total:
  "length (topic_join pat a) =
   sum_list (map (\<lambda>s. length (results_of_session a s))
              (filter (\<lambda>s. like pat (s_topic s)) (study_sessions a)))"
  unfolding topic_join_def results_of_session_def
  by (rule join_length_by_session)

lemma filter_left_of_join:
  "filter (\<lambda>(r, s). C r) (concat (map (\<lambda>r. map (\<lambda>s. (r, s)) (F r)) Rs)) =
   concat (map (\<lambda>r. map (\<lambda>s. (r, s)) (F r)) (filter C Rs))"
  by (induction Rs) (auto simp: filter_map comp_def)

lemma topic_join_correct:
  "length (filter (\<lambda>(r, s). is_correct_1 r) (topic_join pat a)) =
   sum_list (map (\<lambda>s. length (filter is_correct_1 (results_of_session a s)))
              (filter (\<lambda>s. like pat (s_topic s)) (study_sessions a)))"
proof -
  have "filter is_correct_1 (results_of_session a s) =
        filter (\<lambda>r. r_session_id r = Some (s_id s)) (filter is_correct_1 (quiz_results a))" for s
    by (simp add: results_of_session_def conj_commute)
  then show ?thesis
    unfolding topic_join_def
    by (simp add: filter_left_of_join join_length_by_session)
qed


lemma orphan_not_joined: "orphaned a r \<Longrightarrow> r \<notin> fst ` set (topic_join pat a)"
  by (auto simp: orphaned_def topic_join_def image_iff)


subsection \<open>\<open>LIKE '%topic%'\<close> is a substring match up to ASCII case\<close>





















subsection \<open>Referential integrity of the tables\<close>


lemma orphaned_console [simp]: "orphaned (a\<lparr>console := l\<rparr>) r = orphaned a r"
  by (simp add: orphaned_def)

lemma referential_console [simp]: "referential (a\<lparr>console := l\<rparr>) = referential a"
  by (simp add: referential_def)






















subsection \<open>Accuracy\<close>

lemma accuracy_of_no_answers: "accuracy_of correct 0 = 0"
  by (simp add: accuracy_of_def)

lemma accuracy_5_of_7: "accuracy_of 5 7 = 71"
  by code_simp

text \<open>
  For fewer than \<open>2^43\<close> answers the reported accuracy is the percentage rounded half up,
  unless the percentage lies exactly halfway between two integers; there it is that
  rounded value or one less.
\<close>

lemma accuracy_of_unfold:
  "0 < n \<Longrightarrow>
   accuracy_of c n = \<lfloor>binary64 (binary64 (of_nat c / of_nat n) * 100) + 1 / 2\<rfloor>"
  by (simp add: accuracy_of_def js_mul_def js_div_def Math_round_def)

lemma half_grid_gap:
  fixes N :: rat and J :: int
  assumes "0 < N" and "t * (2 * N) = of_int J" and "0 < t"
  shows "1 / (2 * N) \<le> t"
proof -
  from assms have "0 < (of_int J :: rat)"
    by (metis mult_pos_pos zero_less_numeral)
  then have "1 \<le> J" by simp
  then have "(1::rat) \<le> of_int J" by simp
  with assms(2) have "1 \<le> t * (2 * N)" by simp
  with assms(1) show ?thesis
    by (simp add: field_simps)
qed

lemma accuracy_near_exact:
  assumes n: "0 < n" and cn: "c \<le> n" and small: "n < 2 ^ 43"
  shows "(\<not> is_integer (100 * of_nat c / of_nat n + 1 / 2) \<longrightarrow>
            accuracy_of c n = exact_percentage c n) \<and>
         (accuracy_of c n = exact_percentage c n \<or>
          accuracy_of c n = exact_percentage c n - 1)"
proof (cases "c = 0")
  case True
  with n show ?thesis
    by (simp add: accuracy_of_unfold exact_percentage_def binary64_def)
next
  case False
  define N :: rat where "N = of_nat n"
  define x :: rat where "x = 100 * of_nat c / N"
  define y :: rat where "y = binary64 (binary64 (of_nat c / N) * 100)"
  define k :: int where "k = \<lfloor>x + 1 / 2\<rfloor>"
  define t :: rat where "t = x + 1 / 2 - of_int k"
  have N: "0 < N" using n by (simp add: N_def)
  have "N < of_nat (2 ^ 43)"
    unfolding N_def using small by (simp only: of_nat_less_iff)
  then have N43: "N < 8796093022208" by simp
  have q: "0 < of_nat c / N" "of_nat c / N \<le> 1"
    using False cn N by (simp_all add: N_def)
  from percentage_error [OF q] have err: "\<bar>y - x\<bar> \<le> 300 / 9007199254740992"
    by (simp add: y_def x_def)
  have t0: "0 \<le> t" and t1: "t < 1"
    unfolding t_def k_def by linarith+
  have acc: "accuracy_of c n = \<lfloor>y + 1 / 2\<rfloor>"
    using n by (simp add: accuracy_of_unfold y_def N_def)
  have ex: "exact_percentage c n = k"
    using n by (simp add: exact_percentage_def k_def x_def N_def)
  have gap: "300 / 9007199254740992 < 1 / (2 * N)"
    using N N43 by (simp add: field_simps)
  have grid: "t * (2 * N) = of_int (200 * int c + int n - 2 * int n * k)"
    using N by (simp add: t_def x_def N_def field_simps)
  have grid': "(1 - t) * (2 * N) = of_int (2 * int n * k + int n - 200 * int c)"
    using N by (simp add: t_def x_def N_def field_simps)
  have offtie: "\<lfloor>y + 1 / 2\<rfloor> = k" if "t \<noteq> 0"
  proof -
    from that t0 have "0 < t" by simp
    from half_grid_gap [OF N grid this] have lo: "1 / (2 * N) \<le> t" .
    from t1 have "0 < 1 - t" by simp
    from half_grid_gap [OF N grid' this] have hi: "1 / (2 * N) \<le> 1 - t" .
    have "y + 1 / 2 = of_int k + (t + (y - x))"
      by (simp add: t_def)
    moreover have "0 \<le> t + (y - x)" and "t + (y - x) < 1"
      using lo hi gap err by linarith+
    ultimately show ?thesis
      by (simp add: floor_unique)
  qed
  have tie: "\<lfloor>y + 1 / 2\<rfloor> = k \<or> \<lfloor>y + 1 / 2\<rfloor> = k - 1" if "t = 0"
  proof -
    have yk: "y + 1 / 2 = of_int k + (y - x)"
      using that by (simp add: t_def)
    show ?thesis
    proof (cases "0 \<le> y - x")
      case True
      with err have "0 \<le> y - x" and "y - x < 1" by linarith+
      with yk have "\<lfloor>y + 1 / 2\<rfloor> = k" by (simp add: floor_unique)
      then show ?thesis by simp
    next
      case False
      with err have "- 1 \<le> y - x" and "y - x < 0" by linarith+
      then have "of_int (k - 1) \<le> y + 1 / 2" and "y + 1 / 2 < of_int (k - 1) + 1"
        unfolding yk by simp_all
      then have "\<lfloor>y + 1 / 2\<rfloor> = k - 1" by (rule floor_unique)
      then show ?thesis by simp
    qed
  qed
  have "is_integer (x + 1 / 2) = (t = 0)"
    by (auto simp: is_integer_def t_def k_def)
  with offtie tie acc ex show ?thesis
    unfolding x_def N_def by (cases "t = 0") auto
qed

lemma run_tools_append: "run_tools a (cs @ ds) = run_tools (run_tools a cs) ds"
  by (induction cs arbitrary: a) auto

lemma run_answers:
  "run_tools a (map (\<lambda>k. (answer_env k, answer_call k)) [0..<n]) =
     a\<lparr>quiz_results := quiz_results a @ map answer_row [0..<n],
       sql_journal := sql_journal a @ replicate n Quiz_results\<rparr>"
  if "quiz_results a = []" and "''s-1'' \<in> set (map s_id (study_sessions a))"
proof (induction n)
  case 0
  show ?case by simp
next
  case (Suc n)
  have fresh: "replicate (Suc n) CHR ''r'' \<notin> set (map r_id (map answer_row [0..<n]))"
  proof
    assume "replicate (Suc n) CHR ''r'' \<in> set (map r_id (map answer_row [0..<n]))"
    then obtain k where "k < n" and "replicate (Suc n) CHR ''r'' = replicate (Suc k) CHR ''r''"
      by (auto simp: answer_row_def)
    then have "length (replicate (Suc n) CHR ''r'') = length (replicate (Suc k) CHR ''r'')"
      by simp
    with \<open>k < n\<close> show False by simp
  qed
  show ?case
    using Suc fresh that
    by (simp add: run_tools_append answer_call_def answer_env_def checkAnswer_def
          sql_insert_quiz_result_def Let_def answer_row_def replicate_append_same)
qed

lemma forty_answers_state:
  "run_tools initial_agent forty_answers =
     \<lparr>study_sessions = [photosynthesis_session], quiz_results = map answer_row [0..<40],
      sql_journal = Study_sessions # replicate 40 Quiz_results, console = []\<rparr>"
proof -
  have "snd (tools quiz_env initial_agent (GenerateQuiz photosynthesis_quiz)) =
        \<lparr>study_sessions = [photosynthesis_session], quiz_results = [],
         sql_journal = [Study_sessions], console = []\<rparr>"
    by (simp add: generateQuiz_def sql_insert_study_session_def quiz_env_def initial_agent_def
          photosynthesis_quiz_def photosynthesis_session_def Let_def)
  then show ?thesis
    by (simp add: forty_answers_def run_answers photosynthesis_session_def)
qed

lemma filter_less_upt: "filter (\<lambda>k. k < m) [0..<n] = [0..<min m n]"
proof (induction n)
  case 0
  show ?case by simp
next
  case (Suc n)
  show ?case
  proof (cases "n < m")
    case True
    then have "min m n = n" and "min m (Suc n) = Suc n" by simp_all
    with Suc True show ?thesis by simp
  next
    case False
    then have "min m n = m" and "min m (Suc n) = m" by simp_all
    with Suc False show ?thesis by simp
  qed
qed

lemma forty_answers_correct:
  "filter is_correct_1 (map answer_row [0..<40]) = map answer_row [0..<23]"
proof -
  have "is_correct_1 (answer_row k) = (k < 23)" for k
    by (simp add: is_correct_1_def answer_row_def)
  then have "filter is_correct_1 (map answer_row [0..<40]) = map answer_row (filter (\<lambda>k. k < 23) [0..<40])"
    by (simp add: filter_map comp_def)
  then show ?thesis
    by (simp add: filter_less_upt)
qed

lemma accuracy_23_of_40: "accuracy_of 23 40 = 57"
  by code_simp

lemma exact_23_of_40: "exact_percentage 23 40 = 58"
  by (simp add: exact_percentage_def)

lemma like_photo: "like ''%photo%'' ''Photosynthesis''"
  by (simp add: like.simps ascii_upper_def)

text \<open>
  Claim C1 says the reported accuracy is \<open>round(100 * correct / total)\<close>, and 0 when
  there are no answers. The code divides first and multiplies by 100 afterwards, in
  binary64: after forty checked answers of which twenty-three are correct, the quotient
  \<open>23 / 40\<close> is rounded to a double just below 0.575, the product is just below 57.5, and
  \<open>getStudyStats\<close> reports 57, overall and for the topic, where the percentage 57.5
  rounds to 58.
\<close>

theorem accuracy_of_23_of_40_is_57:
  "\<exists>st. getStudyStats quiz_env (run_tools initial_agent forty_answers) (Some ''photo'') =
          (Returns (Stats st), run_tools initial_agent forty_answers) \<and>
        overall st = \<lparr>totalQuestionsAnswered = 40, correctAnswers = 23, accuracy = 57\<rparr> \<and>
        topicStats st = Some \<lparr>tp_topic = ''photo'', totalQuestions = 40,
                               tp_correctAnswers = 23, tp_accuracy = 57\<rparr> \<and>
        exact_percentage 23 40 = 58"
proof -
  let ?a = "run_tools initial_agent forty_answers"
  have ok: "\<not> sql_throws quiz_env"
    by (simp add: quiz_env_def)
  have rows: "quiz_results ?a = map answer_row [0..<40]"
    and sess: "study_sessions ?a = [photosynthesis_session]"
    by (simp_all add: forty_answers_state)
  have n: "length (quiz_results ?a) = 40"
    by (simp add: rows)
  have c: "length (filter is_correct_1 (quiz_results ?a)) = 23"
    by (simp add: rows forty_answers_correct)
  have all: "results_of_session ?a photosynthesis_session = quiz_results ?a"
    by (simp add: results_of_session_def rows photosynthesis_session_def answer_row_def)
  have tpc: "s_topic photosynthesis_session = ''Photosynthesis''"
    by (simp add: photosynthesis_session_def)
  have tn: "length (topic_join ''%photo%'' ?a) = 40"
    by (simp add: topic_join_total sess all n like_photo tpc)
  have tc: "length (filter (\<lambda>(r, s). is_correct_1 r) (topic_join ''%photo%'' ?a)) = 23"
    by (simp add: topic_join_correct sess all c like_photo tpc)
  from getStudyStats_ok [OF ok, of ?a "Some ''photo''"]
  have "\<exists>st. getStudyStats quiz_env ?a (Some ''photo'') = (Returns (Stats st), ?a) \<and>
          totalQuestionsAnswered (overall st) = 40 \<and>
          correctAnswers (overall st) = 23 \<and>
          accuracy (overall st) = 57 \<and>
          topicStats st = Some \<lparr>tp_topic = ''photo'', totalQuestions = 40,
                                 tp_correctAnswers = 23, tp_accuracy = 57\<rparr>"
    by (simp add: n c tn tc truthy_def accuracy_23_of_40)
  then obtain st where "getStudyStats quiz_env ?a (Some ''photo'') = (Returns (Stats st), ?a)"
    and "totalQuestionsAnswered (overall st) = 40"
    and "correctAnswers (overall st) = 23"
    and "accuracy (overall st) = 57"
    and "topicStats st = Some \<lparr>tp_topic = ''photo'', totalQuestions = 40,
                               tp_correctAnswers = 23, tp_accuracy = 57\<rparr>"
    by blast
  then show ?thesis
    using exact_23_of_40 by (intro exI [of _ st]) (cases "overall st", simp)
qed


section \<open>Properties of the input schema\<close>

lemma z_string_Inr: "(z_string v = Inr s) = (v = Some (JString s))"
  by (auto simp: z_string_def split: option.splits json.splits)

lemma z_enum_Inr:
  "(z_default medium z_enum_difficulty v = Inr d) =
   (v = None \<and> d = medium \<or> v = Some (JString (difficulty_text d)))"
  by (cases d) (auto simp: z_default_def z_enum_difficulty_def difficulty_text_def
        split: option.splits json.splits if_splits)

lemma z_number_Inr:
  "(z_default 5 (z_number_min_max 1 10) v = Inr n) =
   (v = None \<and> n = 5 \<or> v = Some (JNumber n) \<and> 1 \<le> n \<and> n \<le> 10)"
  by (auto simp: z_default_def z_number_min_max_def split: option.splits json.splits if_splits)

lemma zod_bind_Inr: "(zod_bind m f = Inr r) = (\<exists>v. m = Inr v \<and> f v = Inr r)"
  by (cases m) (auto simp: zod_bind_def)

lemma schema_accepts:
  "(generateQuiz_inputSchema input = Inr i) =
   (\<exists>obj. input = JObject obj \<and>
      property obj ''topic'' = Some (JString (qi_topic i)) \<and>
      (property obj ''difficulty'' = None \<and> qi_difficulty i = medium \<or>
       property obj ''difficulty'' = Some (JString (difficulty_text (qi_difficulty i)))) \<and>
      (property obj ''numberOfQuestions'' = None \<and> qi_numberOfQuestions i = 5 \<or>
       property obj ''numberOfQuestions'' = Some (JNumber (qi_numberOfQuestions i)) \<and>
       1 \<le> qi_numberOfQuestions i \<and> qi_numberOfQuestions i \<le> 10))"
proof (cases input)
  case (JObject obj)
  have "(generateQuiz_inputSchema input = Inr i) =
        (\<exists>t d n. z_string (property obj ''topic'') = Inr t \<and>
           z_default medium z_enum_difficulty (property obj ''difficulty'') = Inr d \<and>
           z_default 5 (z_number_min_max 1 10) (property obj ''numberOfQuestions'') = Inr n \<and>
           i = \<lparr>qi_topic = t, qi_difficulty = d, qi_numberOfQuestions = n\<rparr>)"
    unfolding JObject generateQuiz_inputSchema_def by (auto simp: zod_bind_Inr)
  also have "\<dots> =
        (z_string (property obj ''topic'') = Inr (qi_topic i) \<and>
         z_default medium z_enum_difficulty (property obj ''difficulty'') = Inr (qi_difficulty i) \<and>
         z_default 5 (z_number_min_max 1 10) (property obj ''numberOfQuestions'')
           = Inr (qi_numberOfQuestions i))"
    by (cases i) auto
  finally show ?thesis
    unfolding z_string_Inr z_enum_Inr z_number_Inr using JObject by simp
qed (simp_all add: generateQuiz_inputSchema_def)

text \<open>
  The input of \<open>generateQuiz\<close> is validated before \<open>execute\<close> runs. The schema accepts
  exactly the objects whose \<open>topic\<close> is a string, whose \<open>difficulty\<close> is absent (then
  \<open>medium\<close>) or one of \<open>easy\<close>, \<open>medium\<close>, \<open>hard\<close>, and whose \<open>numberOfQuestions\<close> is
  absent (then 5) or a number from 1 to 10. On an accepted input the call is \<open>execute\<close>
  on the parsed value; on any other input the call is a tool-level error and the
  agent's state is untouched.
\<close>

lemma generateQuiz_input_validated:
  "(generateQuiz_inputSchema input = Inr i) =
     (\<exists>obj. input = JObject obj \<and>
        property obj ''topic'' = Some (JString (qi_topic i)) \<and>
        (property obj ''difficulty'' = None \<and> qi_difficulty i = medium \<or>
         property obj ''difficulty'' = Some (JString (difficulty_text (qi_difficulty i)))) \<and>
        (property obj ''numberOfQuestions'' = None \<and> qi_numberOfQuestions i = 5 \<or>
         property obj ''numberOfQuestions'' = Some (JNumber (qi_numberOfQuestions i)) \<and>
         1 \<le> qi_numberOfQuestions i \<and> qi_numberOfQuestions i \<le> 10)) \<and>
   (generateQuiz_inputSchema input = Inr i \<longrightarrow>
      1 \<le> qi_numberOfQuestions i \<and> qi_numberOfQuestions i \<le> 10 \<and>
      call_generateQuiz e a input = map_prod Tool_output id (generateQuiz e a i)) \<and>
   (\<forall>issue. generateQuiz_inputSchema input = Inl issue \<longrightarrow>
      call_generateQuiz e a input = (Tool_error issue, a))"
proof -
  have range: "1 \<le> qi_numberOfQuestions i \<and> qi_numberOfQuestions i \<le> 10"
    if "generateQuiz_inputSchema input = Inr i"
    using that unfolding schema_accepts by auto
  have run: "call_generateQuiz e a input = map_prod Tool_output id (generateQuiz e a i)"
    if "generateQuiz_inputSchema input = Inr i"
    using that by (simp add: call_generateQuiz_def)
  have reject: "call_generateQuiz e a input = (Tool_error issue, a)"
    if "generateQuiz_inputSchema input = Inl issue" for issue
    using that by (simp add: call_generateQuiz_def)
  from range run reject schema_accepts [of input i] show ?thesis
    by blast
qed

lemma generateQuiz_input_validated_example:
  "generateQuiz_inputSchema valid_input = Inr photosynthesis_quiz \<and>
   1 \<le> qi_numberOfQuestions photosynthesis_quiz \<and>
   qi_numberOfQuestions photosynthesis_quiz \<le> 10 \<and>
   call_generateQuiz working_env initial_agent valid_input =
     map_prod Tool_output id (generateQuiz working_env initial_agent photosynthesis_quiz) \<and>
   generateQuiz_inputSchema oversized_input = Inl too_big \<and>
   call_generateQuiz working_env initial_agent oversized_input =
     (Tool_error too_big, initial_agent)"
proof -
  have ok: "generateQuiz_inputSchema valid_input = Inr photosynthesis_quiz"
    by (simp add: generateQuiz_inputSchema_def valid_input_def property_def zod_bind_def
          z_string_def z_default_def z_number_min_max_def z_enum_difficulty_def
          photosynthesis_quiz_def)
  have ko: "generateQuiz_inputSchema oversized_input = Inl too_big"
    by (simp add: generateQuiz_inputSchema_def oversized_input_def property_def zod_bind_def
          z_string_def z_default_def z_number_min_max_def)
  from generateQuiz_input_validated
         [of valid_input photosynthesis_quiz working_env initial_agent] ok
  have 1: "1 \<le> qi_numberOfQuestions photosynthesis_quiz \<and>
           qi_numberOfQuestions photosynthesis_quiz \<le> 10 \<and>
           call_generateQuiz working_env initial_agent valid_input =
             map_prod Tool_output id (generateQuiz working_env initial_agent photosynthesis_quiz)"
    by blast
  from generateQuiz_input_validated
         [of oversized_input photosynthesis_quiz working_env initial_agent] ko
  have 2: "call_generateQuiz working_env initial_agent oversized_input =
             (Tool_error too_big, initial_agent)"
    by blast
  from ok ko 1 2 show ?thesis
    by blast
qed

lemma decimal_text_examples:
  "decimal_text (5 / 2) = ''2.5''" "decimal_text 3 = ''3''" "decimal_text 10 = ''10''"
  "decimal_text (11 / 10) = ''1.1''"
  by code_simp+

text \<open>
  Claim C6. The claim has \<open>numberOfQuestions\<close> validated as an integer from 1 to 10 and
  \<open>execute\<close> never run on an input outside the constraints. The schema takes
  \<open>numberOfQuestions\<close> as \<open>z.number().min(1).max(10)\<close>, with no \<open>.int()\<close>: the input
  \<open>{topic: "Photosynthesis", numberOfQuestions: 2.5}\<close> is accepted and \<open>execute\<close> runs on
  it, with a count that is not an integer. It stores the session and returns the
  count 2.5, in an instruction that begins \<open>Generate 2.5 medium quiz questions\<close>.
\<close>

theorem generateQuiz_accepts_fractional_count:
  "generateQuiz_inputSchema fractional_input =
     Inr \<lparr>qi_topic = ''Photosynthesis'', qi_difficulty = medium, qi_numberOfQuestions = 5 / 2\<rparr> \<and>
   \<not> is_integer (5 / 2) \<and>
   fst (call_generateQuiz working_env initial_agent fractional_input) =
     Tool_output (Returns
       \<lparr>qo_sessionId = ''id-1'', qo_topic = ''Photosynthesis'', qo_difficulty = medium,
        qo_numberOfQuestions = 5 / 2,
        qo_instruction = quiz_instruction working_env
          \<lparr>qi_topic = ''Photosynthesis'', qi_difficulty = medium,
           qi_numberOfQuestions = 5 / 2\<rparr>\<rparr>) \<and>
   prefix (''Generate 2.5 medium quiz questions about '' @ [CHR 0x22] @ ''Photosynthesis'' @
             [CHR 0x22] @ ''.'')
     (quiz_instruction working_env
        \<lparr>qi_topic = ''Photosynthesis'', qi_difficulty = medium, qi_numberOfQuestions = 5 / 2\<rparr>) \<and>
   map s_topic (study_sessions (snd (call_generateQuiz working_env initial_agent fractional_input))) =
     [''Photosynthesis'']"
proof -
  have 1: "generateQuiz_inputSchema fractional_input =
     Inr \<lparr>qi_topic = ''Photosynthesis'', qi_difficulty = medium, qi_numberOfQuestions = 5 / 2\<rparr>"
    by (simp add: generateQuiz_inputSchema_def fractional_input_def property_def zod_bind_def
          z_string_def z_default_def z_number_min_max_def)
  have 2: "\<not> is_integer (5 / 2)"
    by code_simp
  have 3: "fst (call_generateQuiz working_env initial_agent fractional_input) =
     Tool_output (Returns
       \<lparr>qo_sessionId = ''id-1'', qo_topic = ''Photosynthesis'', qo_difficulty = medium,
        qo_numberOfQuestions = 5 / 2,
        qo_instruction = quiz_instruction working_env
          \<lparr>qi_topic = ''Photosynthesis'', qi_difficulty = medium,
           qi_numberOfQuestions = 5 / 2\<rparr>\<rparr>)"
    using 1 by (simp add: call_generateQuiz_def generateQuiz_def working_env_def Let_def)
  have 4: "prefix (''Generate 2.5 medium quiz questions about '' @ [CHR 0x22] @ ''Photosynthesis'' @
             [CHR 0x22] @ ''.'')
     (quiz_instruction working_env
        \<lparr>qi_topic = ''Photosynthesis'', qi_difficulty = medium, qi_numberOfQuestions = 5 / 2\<rparr>)"
    by (simp add: quiz_instruction_def working_env_def decimal_text_examples difficulty_text_def)
  have 5: "map s_topic (study_sessions (snd (call_generateQuiz working_env initial_agent fractional_input))) =
     [''Photosynthesis'']"
    using 1 by (simp add: call_generateQuiz_def generateQuiz_def working_env_def Let_def
          sql_insert_study_session_def initial_agent_def)
  from 1 2 3 4 5 show ?thesis
    by blast
qed


section \<open>Properties of the conversation loop and the sanitizer\<close>




text \<open>
  Claim C8. Sanitizing twice gives what sanitizing once gives. The sanitized history is
  a subsequence of the history, so no message is reordered or altered; the messages
  without an incomplete tool call are all kept; and a history with no incomplete tool
  call is returned as it is.
\<close>

theorem cleanupMessages_idempotent:
  "cleanupMessages (cleanupMessages h) = cleanupMessages h \<and>
   subseq (cleanupMessages h) h \<and>
   filter (\<lambda>m. \<not> hasIncompleteToolCall m) (cleanupMessages h) =
     filter (\<lambda>m. \<not> hasIncompleteToolCall m) h \<and>
   (list_ex hasIncompleteToolCall h \<or> cleanupMessages h = h)"
proof -
  have "list_ex hasIncompleteToolCall h \<or> cleanupMessages h = h"
    by (auto simp: cleanupMessages_def list_ex_iff filter_id_conv)
  then show ?thesis
    by (auto simp: cleanupMessages_def)
qed

theorem cleanupMessages_idempotent_witness:
  "cleanupMessages interrupted_history = [user_message, saved_message] \<and>
   cleanupMessages (cleanupMessages interrupted_history) = [user_message, saved_message] \<and>
   subseq [user_message, saved_message] interrupted_history \<and>
   list_ex hasIncompleteToolCall interrupted_history"
proof -
  have c: "cleanupMessages interrupted_history = [user_message, saved_message]"
    by (simp add: cleanupMessages_def interrupted_history_def user_message_def
          saved_message_def interrupted_message_def hasIncompleteToolCall_def
          incomplete_part_def)
  have i: "list_ex hasIncompleteToolCall interrupted_history"
    by (simp add: interrupted_history_def interrupted_message_def hasIncompleteToolCall_def
          incomplete_part_def)
  from cleanupMessages_idempotent [of interrupted_history] c i show ?thesis
    by simp
qed

end
